theory Spec2Isabelle
  imports Complex_Main
begin

section \<open>Python values used by the bridge\<close>

text \<open>
  A Python \<open>str\<close> is a sequence of Unicode code points, so it is modelled as a list of
  natural numbers; \<open>ustr\<close> turns an ASCII literal into such a list.  The message prefixes
  of the source file are kept code point by code point as the file has them.
\<close>

type_synonym pystr = "nat list"

definition ustr :: "string \<Rightarrow> pystr" where
  "ustr s = map of_char s"

text \<open>What \<open>json.loads\<close> can return (and what \<open>json.dumps\<close> takes).\<close>

datatype json =
    JNull
  | JBool bool
  | JInt int
  | JFloat real
  | JStr pystr
  | JArr "json list"
  | JObj "(pystr \<times> json) list"

text \<open>Python truthiness, as the \<open>or\<close> of \<open>_process_request\<close> tests it.\<close>

fun truthy :: "json \<Rightarrow> bool" where
  "truthy JNull = False"
| "truthy (JBool b) = b"
| "truthy (JInt i) = (i \<noteq> 0)"
| "truthy (JFloat r) = (r \<noteq> 0)"
| "truthy (JStr s) = (s \<noteq> [])"
| "truthy (JArr xs) = (xs \<noteq> [])"
| "truthy (JObj kvs) = (kvs \<noteq> [])"

text \<open>\<open>d.get(k, dflt)\<close> on a dict held as an association list.\<close>

definition dict_get :: "(pystr \<times> json) list \<Rightarrow> pystr \<Rightarrow> json \<Rightarrow> json" where
  "dict_get d k dflt = (case map_of d k of None \<Rightarrow> dflt | Some v \<Rightarrow> v)"

text \<open>
  Exceptions: \<open>Error msg\<close> is any instance of \<open>Exception\<close> whose \<open>str\<close> is \<open>msg\<close>;
  \<open>KeyboardInterrupt\<close> is the one \<open>BaseException\<close> the loop handles apart.
\<close>

datatype exn = Error pystr | KeyboardInterrupt

fun type_name :: "json \<Rightarrow> string" where
  "type_name JNull = ''NoneType''"
| "type_name (JBool b) = ''bool''"
| "type_name (JInt i) = ''int''"
| "type_name (JFloat r) = ''float''"
| "type_name (JStr s) = ''str''"
| "type_name (JArr xs) = ''list''"
| "type_name (JObj kvs) = ''dict''"

text \<open>The AttributeError Python raises for \<open>v.attr\<close> when the type of \<open>v\<close> has no such attribute.\<close>

definition attribute_error :: "json \<Rightarrow> string \<Rightarrow> exn" where
  "attribute_error v attr =
     Error ([39] @ ustr (type_name v) @ [39] @ ustr '' object has no attribute ''
            @ [39] @ ustr attr @ [39])"

subsection \<open>Decimal rendering of integers\<close>

fun digits_of :: "nat \<Rightarrow> pystr" where
  "digits_of n = (if n < 10 then [48 + n] else digits_of (n div 10) @ [48 + n mod 10])"

declare digits_of.simps [simp del]

text \<open>\<open>str(i)\<close> for a Python int.\<close>

definition py_str_int :: "int \<Rightarrow> pystr" where
  "py_str_int i = (if i < 0 then 45 # digits_of (nat (- i)) else digits_of (nat i))"

subsection \<open>\<open>str.replace\<close> of one character and \<open>str.strip\<close>\<close>

definition replace_char :: "nat \<Rightarrow> nat \<Rightarrow> pystr \<Rightarrow> pystr" where
  "replace_char old new s = map (\<lambda>c. if c = old then new else c) s"

text \<open>The code points Python's \<open>str.strip()\<close> removes (those with \<open>str.isspace\<close>).\<close>

definition py_isspace :: "nat \<Rightarrow> bool" where
  "py_isspace c \<longleftrightarrow>
     (9 \<le> c \<and> c \<le> 13) \<or> (28 \<le> c \<and> c \<le> 32) \<or> c = 133 \<or> c = 160 \<or> c = 5760
     \<or> (8192 \<le> c \<and> c \<le> 8202) \<or> c = 8232 \<or> c = 8233 \<or> c = 8239 \<or> c = 8287
     \<or> c = 12288"

definition py_strip :: "pystr \<Rightarrow> pystr" where
  "py_strip s = rev (dropWhile py_isspace (rev (dropWhile py_isspace s)))"

section \<open>The bridge: state, environment and operations\<close>

record history_entry =
  timestamp :: pystr
  role :: pystr
  marker :: json
  content :: json

datatype sleep = Idle real | Backoff real

text \<open>
  Everything the bridge can change: the loop flag, the local variable \<open>error_backoff\<close> of
  \<open>run\<close>, the lines of \<open>session.jsonl\<close> and \<open>bridge.log\<close>, what was printed, the commands
  handed to the backend, and the calls of \<open>time.sleep\<close>.  \<open>suspended\<close> says where control
  is: it is up once the process sits in a call of \<open>_read_request\<close> that does not return.
\<close>

record bridge_state =
  running :: bool
  suspended :: bool
  error_backoff :: real
  history :: "history_entry list"
  bridge_log :: "pystr list"
  console :: "pystr list"
  sent :: "pystr list"
  sleeps :: "sleep list"

text \<open>
  What the surroundings do during one iteration of the loop.  \<open>send_text\<close> is the backend
  (\<open>None\<close>: it returns); \<open>history_write\<close> and \<open>log_write\<close> say whether appending to the two
  files works (\<open>Some msg\<close>: the write raises an exception whose text is \<open>msg\<close>).
\<close>

text \<open>
  What one call of \<open>_read_request\<close> meets:
  \<^item> \<open>FifoMissing\<close>: \<open>input_fifo.exists()\<close> is false;
  \<^item> \<open>OSError\<close>: \<open>open\<close> or \<open>readline\<close> raises an OSError;
  \<^item> \<open>Line l\<close>: a writer has the fifo open and \<open>readline\<close> returns the text \<open>l\<close>, empty at
    the end of the stream;
  \<^item> \<open>Escapes x\<close>: an exception that is neither an OSError nor a JSONDecodeError is raised,
    as the UnicodeDecodeError of \<open>readline\<close> on bytes that are not UTF-8;
  \<^item> \<open>Blocks\<close>: the fifo exists and no writer has it open, or the writer sends no complete
    line: the plain \<open>open("r")\<close>, or \<open>readline\<close>, does not return.
\<close>

datatype read_event =
    FifoMissing
  | OSError
  | Line pystr
  | Escapes exn
  | Blocks

record env =
  read_event :: read_event
  utc_now :: pystr
  local_now :: pystr
  unix_time :: int
  send_text :: "pystr \<Rightarrow> pystr \<Rightarrow> exn option"
  history_write :: "history_entry \<Rightarrow> pystr option"
  log_write :: "pystr \<Rightarrow> bool"

text \<open>The bridge object and the process it runs in; the two json functions are the library's.\<close>

record bridge =
  pane_id :: pystr
  pid :: int
  json_loads :: "pystr \<Rightarrow> json option"
  json_dumps :: "json \<Rightarrow> pystr"

record timing =
  idle_sleep :: real
  error_backoff_min :: real
  error_backoff_max :: real

definition env_float :: "(pystr \<Rightarrow> pystr option) \<Rightarrow> (pystr \<Rightarrow> real option) \<Rightarrow> pystr \<Rightarrow> real \<Rightarrow> real" where
  "env_float environ to_float name dflt =
     (case environ name of
        None \<Rightarrow> dflt
      | Some raw \<Rightarrow> (case to_float raw of None \<Rightarrow> dflt | Some v \<Rightarrow> max 0 v))"

definition log_console :: "pystr \<Rightarrow> bridge_state \<Rightarrow> bridge_state" where
  "log_console message st = st\<lparr>console := console st @ [message]\<rparr>"

definition log_bridge :: "env \<Rightarrow> pystr \<Rightarrow> bridge_state \<Rightarrow> bridge_state" where
  "log_bridge e message st =
     (let line = local_now e @ [32] @ message
      in if log_write e line then st\<lparr>bridge_log := bridge_log st @ [line]\<rparr> else st)"

definition append_history :: "env \<Rightarrow> pystr \<Rightarrow> json \<Rightarrow> json \<Rightarrow> bridge_state \<Rightarrow> bridge_state" where
  "append_history e r c m st =
     (let entry = \<lparr>timestamp = utc_now e, role = r, marker = m, content = c\<rparr>
      in case history_write e entry of
           None \<Rightarrow> st\<lparr>history := history st @ [entry]\<rparr>
         | Some exc \<Rightarrow> log_console ([226, 353, 160, 239, 184, 32] @ ustr ''Failed to write history: '' @ exc) st)"

definition generate_marker :: "int \<Rightarrow> int \<Rightarrow> pystr" where
  "generate_marker secs p = ustr ''ask-'' @ py_str_int secs @ ustr ''-'' @ py_str_int p"

text \<open>\<open>TerminalCodexSession.send\<close>: the exception raised, if any, and the new state.\<close>

definition send :: "bridge \<Rightarrow> env \<Rightarrow> json \<Rightarrow> bridge_state \<Rightarrow> exn option \<times> bridge_state" where
  "send b e text st =
     (case text of
        JStr s \<Rightarrow>
          (let command = py_strip (replace_char 10 32 (replace_char 13 32 s))
           in if command \<noteq> []
              then (send_text e (pane_id b) command, st\<lparr>sent := sent st @ [command]\<rparr>)
              else (None, st))
      | _ \<Rightarrow> (Some (attribute_error text ''replace''), st))"

definition process_request :: "bridge \<Rightarrow> env \<Rightarrow> json \<Rightarrow> bridge_state \<Rightarrow> exn option \<times> bridge_state" where
  "process_request b e payload st =
     (case payload of
        JObj d \<Rightarrow>
          (let c = dict_get d (ustr ''content'') (JStr []);
               provided = dict_get d (ustr ''marker'') JNull;
               m = (if truthy provided then provided
                    else JStr (generate_marker (unix_time e) (pid b)));
               st1 = log_bridge e
                       (json_dumps b (JObj [(ustr ''marker'', m), (ustr ''question'', c),
                                            (ustr ''time'', JStr (local_now e))])) st;
               st2 = append_history e (ustr ''claude'') c m st1
           in case send b e c st2 of
                (None, st3) \<Rightarrow> (None, st3)
              | (Some (Error exc), st3) \<Rightarrow>
                  (let msg = [226, 338, 32] @ ustr ''Failed to send to Codex: '' @ exc
                   in (None, log_console msg (append_history e (ustr ''codex'') (JStr msg) m st3)))
              | (Some KeyboardInterrupt, st3) \<Rightarrow> (Some KeyboardInterrupt, st3))
      | _ \<Rightarrow> (Some (attribute_error payload ''get''), st))"

text \<open>
  \<open>_read_request\<close>: \<open>None\<close> when the call does not return; otherwise the exception that
  escapes it, or the payload (\<open>Inr None\<close> for Python's None).
\<close>

definition read_request :: "bridge \<Rightarrow> env \<Rightarrow> (exn + json option) option" where
  "read_request b e =
     (case read_event e of
        FifoMissing \<Rightarrow> Some (Inr None)
      | OSError \<Rightarrow> Some (Inr None)
      | Line l \<Rightarrow>
          (if l = [] then Some (Inr None)
           else (case json_loads b l of
                   None \<Rightarrow> Some (Inr None)
                 | Some JNull \<Rightarrow> Some (Inr None)
                 | Some v \<Rightarrow> Some (Inr (Some v))))
      | Escapes x \<Rightarrow> Some (Inl x)
      | Blocks \<Rightarrow> None)"

definition do_sleep :: "sleep \<Rightarrow> bridge_state \<Rightarrow> bridge_state" where
  "do_sleep s st = st\<lparr>sleeps := sleeps st @ [s]\<rparr>"

text \<open>
  The body of the \<open>try\<close> in \<open>run\<close>, and the whole loop body with its two handlers.  When
  \<open>_read_request\<close> does not return, nothing after it runs: the state is left as it is, with
  \<open>suspended\<close> up.
\<close>

definition try_body :: "bridge \<Rightarrow> timing \<Rightarrow> env \<Rightarrow> bridge_state \<Rightarrow> exn option \<times> bridge_state" where
  "try_body b t e st =
     (case read_request b e of
        None \<Rightarrow> (None, st\<lparr>suspended := True\<rparr>)
      | Some (Inl x) \<Rightarrow> (Some x, st)
      | Some (Inr None) \<Rightarrow>
          (None, if idle_sleep t \<noteq> 0 then do_sleep (Idle (idle_sleep t)) st else st)
      | Some (Inr (Some payload)) \<Rightarrow>
          (case process_request b e payload st of
             (None, st') \<Rightarrow>
               (None, st'\<lparr>error_backoff := max 0 (min (error_backoff_min t) (error_backoff_max t))\<rparr>)
           | (Some x, st') \<Rightarrow> (Some x, st')))"

definition loop_body :: "bridge \<Rightarrow> timing \<Rightarrow> env \<Rightarrow> bridge_state \<Rightarrow> bridge_state" where
  "loop_body b t e st =
     (case try_body b t e st of
        (None, st') \<Rightarrow> st'
      | (Some KeyboardInterrupt, st') \<Rightarrow> st'\<lparr>running := False\<rparr>
      | (Some (Error exc), st') \<Rightarrow>
          (let st1 = log_console ([226, 338, 32] @ ustr ''Failed to process message: '' @ exc) st';
               st2 = log_bridge e (ustr ''error: '' @ exc) st1;
               st3 = (if error_backoff st2 \<noteq> 0 then do_sleep (Backoff (error_backoff st2)) st2
                      else st2)
           in if error_backoff_max t \<noteq> 0
              then st3\<lparr>error_backoff :=
                         min (error_backoff_max t) (max (error_backoff_min t) (error_backoff st3 * 2))\<rparr>
              else st3))"

definition handle_signal :: "int \<Rightarrow> bridge_state \<Rightarrow> bridge_state" where
  "handle_signal signum st =
     log_console ([226, 353, 160, 239, 184, 32] @ ustr ''Received signal '' @ py_str_int signum
                  @ ustr '', exiting...'')
       (st\<lparr>running := False\<rparr>)"

text \<open>
  The \<open>while self._running\<close> loop over what happens to the process: a signal is delivered
  between two iterations, or one iteration runs in the given surroundings.  The list is a
  finite prefix of the run; the loop stops early once the flag is down.  A process suspended
  in \<open>_read_request\<close> runs no further iteration; a signal still reaches its handler, after
  which the interrupted call is resumed.
\<close>

datatype event = Signal int | Iteration env

fun run_loop :: "bridge \<Rightarrow> timing \<Rightarrow> event list \<Rightarrow> bridge_state \<Rightarrow> bridge_state" where
  "run_loop b t [] st = st"
| "run_loop b t (ev # evs) st =
     (if suspended st
      then run_loop b t evs (case ev of Signal n \<Rightarrow> handle_signal n st | Iteration e \<Rightarrow> st)
      else if running st
      then run_loop b t evs
             (case ev of Signal n \<Rightarrow> handle_signal n st | Iteration e \<Rightarrow> loop_body b t e st)
      else st)"

definition load_timing :: "(pystr \<Rightarrow> pystr option) \<Rightarrow> (pystr \<Rightarrow> real option) \<Rightarrow> timing" where
  "load_timing environ to_float =
     \<lparr>idle_sleep = env_float environ to_float (ustr ''CCB_BRIDGE_IDLE_SLEEP'') 0.05,
      error_backoff_min = env_float environ to_float (ustr ''CCB_BRIDGE_ERROR_BACKOFF_MIN'') 0.05,
      error_backoff_max = env_float environ to_float (ustr ''CCB_BRIDGE_ERROR_BACKOFF_MAX'') 0.2\<rparr>"

text \<open>The state in which \<open>run\<close> enters its loop.\<close>

definition run_start :: "timing \<Rightarrow> bridge_state \<Rightarrow> bridge_state" where
  "run_start t st =
     (log_console ([240, 376, 8221, 338, 32]
                   @ ustr ''Codex bridge started, waiting for Claude commands...'') st)
       \<lparr>error_backoff := max 0 (min (error_backoff_min t) (error_backoff_max t))\<rparr>"

text \<open>
  \<open>run\<close>: the exit status once the loop has ended (\<open>None\<close> while it is still running, or
  suspended, at the end of the given events) and the state reached.
\<close>

definition run :: "bridge \<Rightarrow> (pystr \<Rightarrow> pystr option) \<Rightarrow> (pystr \<Rightarrow> real option) \<Rightarrow> event list
                   \<Rightarrow> bridge_state \<Rightarrow> int option \<times> bridge_state" where
  "run b environ to_float evs st =
     (let t = load_timing environ to_float;
          st' = run_loop b t evs (run_start t st)
      in if suspended st' \<or> running st' then (None, st')
         else (Some 0, log_console ([240, 376, 8216, 8249, 32] @ ustr ''Codex bridge exited'') st'))"

text \<open>The durations of the backoff sleeps among the calls of \<open>time.sleep\<close>, in order.\<close>

fun backoff_durations :: "sleep list \<Rightarrow> real list" where
  "backoff_durations [] = []"
| "backoff_durations (Idle d # ss) = backoff_durations ss"
| "backoff_durations (Backoff d # ss) = d # backoff_durations ss"

text \<open>The shape \<open>ask-<digits>-<digits>\<close> that the specification gives for a generated marker.\<close>

definition is_digit :: "nat \<Rightarrow> bool" where
  "is_digit c \<longleftrightarrow> 48 \<le> c \<and> c \<le> 57"

definition is_ask_marker :: "pystr \<Rightarrow> bool" where
  "is_ask_marker s \<longleftrightarrow>
     take 4 s = ustr ''ask-''
     \<and> (let r = drop 4 s; secs = takeWhile is_digit r; z = dropWhile is_digit r
        in secs \<noteq> [] \<and> z \<noteq> [] \<and> hd z = 45 \<and> tl z \<noteq> [] \<and> list_all is_digit (tl z))"

section \<open>Concrete surroundings for the examples\<close>

definition example_bridge :: bridge where
  "example_bridge =
     \<lparr>pane_id = ustr ''%1'', pid = 4242,
      json_loads = (\<lambda>l. if l = ustr ''{}'' then Some (JObj [])
                        else if l = ustr ''[]'' then Some (JArr [])
                        else if l = ustr ''null'' then Some JNull else None),
      json_dumps = (\<lambda>v. ustr ''{}'')\<rparr>"

definition example_env :: env where
  "example_env =
     \<lparr>read_event = FifoMissing, utc_now = ustr ''2026-01-01T00:00:00+00:00'',
      local_now = ustr ''2026-01-01 00:00:00'', unix_time = 1767225600,
      send_text = (\<lambda>pane command. None), history_write = (\<lambda>entry. None),
      log_write = (\<lambda>line. True)\<rparr>"

definition example_state :: bridge_state where
  "example_state =
     \<lparr>running = True, suspended = False, error_backoff = 0.05, history = [], bridge_log = [], console = [],
      sent = [], sleeps = []\<rparr>"

definition hi_line :: pystr where
  "hi_line = [123, 34] @ ustr ''content'' @ [34, 58, 32, 34] @ ustr ''hi'' @ [34, 125]"

definition hi_request :: "(pystr \<times> json) list" where
  "hi_request = [(ustr ''content'', JStr (ustr ''hi''))]"

definition failing_backend_env :: env where
  "failing_backend_env =
     example_env\<lparr>read_event := Line hi_line,
                 send_text := (\<lambda>pane command. Some (Error (ustr ''boom'')))\<rparr>"

definition example_timing :: timing where
  "example_timing = \<lparr>idle_sleep = 0.05, error_backoff_min = 0.05, error_backoff_max = 0.2\<rparr>"

definition hi_bridge :: bridge where
  "hi_bridge = example_bridge\<lparr>json_loads := (\<lambda>l. if l = hi_line then Some (JObj hi_request) else None)\<rparr>"

definition empty_marker_request :: "(pystr \<times> json) list" where
  "empty_marker_request = [(ustr ''content'', JStr (ustr ''hi'')), (ustr ''marker'', JStr [])]"

definition m1_request :: "(pystr \<times> json) list" where
  "m1_request = [(ustr ''content'', JStr (ustr ''hello'' @ [10] @ ustr ''world'')),
                 (ustr ''marker'', JStr (ustr ''m1''))]"

definition zero_marker_request :: "(pystr \<times> json) list" where
  "zero_marker_request = [(ustr ''marker'', JInt 0), (ustr ''content'', JStr (ustr ''hi''))]"

definition unwritable_env :: env where
  "unwritable_env =
     example_env\<lparr>read_event := Line hi_line,
                 history_write := (\<lambda>entry. Some (ustr ''disk full'')),
                 log_write := (\<lambda>line. False)\<rparr>"

definition unreadable_env :: env where
  "unreadable_env = example_env\<lparr>read_event := OSError\<rparr>"


definition list_env :: env where
  "list_env = example_env\<lparr>read_event := Line (ustr ''[]'')\<rparr>"

definition garbage_env :: env where
  "garbage_env = example_env\<lparr>read_event := Line (ustr ''{not json'')\<rparr>"

definition swapped_environ :: "pystr \<Rightarrow> pystr option" where
  "swapped_environ name =
     (if name = ustr ''CCB_BRIDGE_ERROR_BACKOFF_MIN'' then Some (ustr ''0.5'')
      else if name = ustr ''CCB_BRIDGE_ERROR_BACKOFF_MAX'' then Some (ustr ''0.2'')
      else None)"

definition example_to_float :: "pystr \<Rightarrow> real option" where
  "example_to_float raw =
     (if raw = ustr ''0.5'' then Some 0.5 else if raw = ustr ''0.2'' then Some 0.2 else None)"

definition broken_read_env :: env where
  "broken_read_env = example_env\<lparr>read_event := Escapes (Error (ustr ''invalid start byte''))\<rparr>"

definition hi_env :: env where
  "hi_env = example_env\<lparr>read_event := Line hi_line\<rparr>"

definition yo_line :: pystr where
  "yo_line = [123, 34] @ ustr ''content'' @ [34, 58, 32, 34] @ ustr ''yo'' @ [34, 125]"

definition two_line_bridge :: bridge where
  "two_line_bridge =
     example_bridge\<lparr>json_loads :=
       (\<lambda>l. if l = hi_line then Some (JObj hi_request)
            else if l = yo_line then Some (JObj [(ustr ''content'', JStr (ustr ''yo''))])
            else None)\<rparr>"

definition yo_env :: env where
  "yo_env = example_env\<lparr>read_event := Line yo_line\<rparr>"

section \<open>Normalisation of the command text\<close>

lemma py_strip_split:
  "\<exists>pre post. s = pre @ py_strip s @ post \<and> list_all py_isspace pre \<and> list_all py_isspace post"
proof -
  let ?d = "dropWhile py_isspace s"
  have a: "s = takeWhile py_isspace s @ ?d" by simp
  have "rev (takeWhile py_isspace (rev ?d) @ dropWhile py_isspace (rev ?d)) = rev (rev ?d)"
    by (simp only: takeWhile_dropWhile_id)
  then have b: "?d = py_strip s @ rev (takeWhile py_isspace (rev ?d))"
    by (simp only: rev_append rev_rev_ident py_strip_def)
  have c: "list_all py_isspace (takeWhile py_isspace s)"
    by (simp add: list_all_iff) (meson set_takeWhileD)
  have d: "list_all py_isspace (rev (takeWhile py_isspace (rev ?d)))"
    by (simp add: list_all_iff) (meson set_takeWhileD)
  from a b have "s = takeWhile py_isspace s @ py_strip s @ rev (takeWhile py_isspace (rev ?d))"
    by metis
  with c d show ?thesis by blast
qed

lemma py_strip_last: "py_strip s \<noteq> [] \<Longrightarrow> \<not> py_isspace (last (py_strip s))"
  by (simp add: py_strip_def last_rev hd_dropWhile)

lemma last_dropWhile_ne: "dropWhile P xs \<noteq> [] \<Longrightarrow> last (dropWhile P xs) = last xs"
  by (induction xs) (auto)

lemma py_strip_hd: "py_strip s \<noteq> [] \<Longrightarrow> \<not> py_isspace (hd (py_strip s))"
proof -
  assume ne: "py_strip s \<noteq> []"
  let ?d = "dropWhile py_isspace s"
  from ne have dne: "dropWhile py_isspace (rev ?d) \<noteq> []" by (simp add: py_strip_def)
  then have "?d \<noteq> []" by (cases "dropWhile py_isspace s") simp_all
  then have h: "\<not> py_isspace (hd ?d)" by (rule hd_dropWhile)
  have "hd (py_strip s) = last (dropWhile py_isspace (rev ?d))"
    using dne by (simp add: py_strip_def hd_rev)
  also have "\<dots> = last (rev ?d)" using dne by (rule last_dropWhile_ne)
  also have "\<dots> = hd ?d" using \<open>?d \<noteq> []\<close> by (simp add: last_rev)
  finally show ?thesis using h by simp
qed

lemma replace_both:
  "replace_char 10 32 (replace_char 13 32 s) = map (\<lambda>c. if c = 13 \<or> c = 10 then 32 else c) s"
  by (simp add: replace_char_def)

text \<open>
  C5. \<open>send\<close> replaces every carriage return and every newline of the text by one space
  and trims the white space at both ends: the command is the middle part of the flattened
  text, what is cut off on either side is white space only, and a non-empty command neither
  starts nor ends with white space.  A non-empty command is handed to the backend exactly
  once; an empty one is not handed over at all and nothing changes.
\<close>

theorem send_normalizes_command:
  "(let flat = map (\<lambda>c. if c = 13 \<or> c = 10 then 32 else c) s; command = py_strip flat in
      (\<exists>pre post. flat = pre @ command @ post \<and> list_all py_isspace pre \<and> list_all py_isspace post)
    \<and> (command \<noteq> [] \<longrightarrow> \<not> py_isspace (hd command) \<and> \<not> py_isspace (last command))
    \<and> send b e (JStr s) st =
        (if command = [] then (None, st)
         else (send_text e (pane_id b) command, st\<lparr>sent := sent st @ [command]\<rparr>)))"
  unfolding Let_def
  by (intro conjI impI py_strip_split py_strip_hd py_strip_last)
     (simp_all add: send_def replace_both Let_def)

theorem send_normalizes_command_witness:
  "py_strip (map (\<lambda>c. if c = 13 \<or> c = 10 then 32 else c) (ustr ''hello'' @ [10] @ ustr ''world''))
     = ustr ''hello world''
   \<and> ustr ''hello world'' \<noteq> []
   \<and> \<not> py_isspace (hd (ustr ''hello world''))
   \<and> send example_bridge example_env (JStr (ustr ''hello'' @ [10] @ ustr ''world'')) example_state
       = (None, example_state\<lparr>sent := [ustr ''hello world'']\<rparr>)"
  using send_normalizes_command [of "ustr ''hello'' @ [10] @ ustr ''world''" example_bridge
                                    example_env example_state]
  by (simp add: send_def replace_char_def Let_def py_strip_def ustr_def py_isspace_def example_env_def
        example_state_def)

section \<open>Dispatch\<close>

lemma send_shape:
  "\<exists>extra. send b e c st = (fst (send b e c st0), st\<lparr>sent := sent st @ extra\<rparr>)"
proof (cases "\<exists>s. c = JStr s \<and> py_strip (replace_char 10 32 (replace_char 13 32 s)) \<noteq> []")
  case True
  then obtain s where "c = JStr s" "py_strip (replace_char 10 32 (replace_char 13 32 s)) \<noteq> []"
    by blast
  then have "send b e c st = (fst (send b e c st0),
               st\<lparr>sent := sent st @ [py_strip (replace_char 10 32 (replace_char 13 32 s))]\<rparr>)"
    by (simp add: send_def Let_def)
  then show ?thesis by blast
next
  case False
  then have "send b e c st = (fst (send b e c st0), st\<lparr>sent := sent st @ []\<rparr>)"
    by (cases c) (simp_all add: send_def Let_def)
  then show ?thesis by blast
qed

lemma log_bridge_fields [simp]:
  "running (log_bridge e msg st) = running st"
  "suspended (log_bridge e msg st) = suspended st"
  "error_backoff (log_bridge e msg st) = error_backoff st"
  "history (log_bridge e msg st) = history st"
  "console (log_bridge e msg st) = console st"
  "sent (log_bridge e msg st) = sent st"
  "sleeps (log_bridge e msg st) = sleeps st"
  by (simp_all add: log_bridge_def Let_def)

lemma append_history_fields [simp]:
  "running (append_history e r c m st) = running st"
  "suspended (append_history e r c m st) = suspended st"
  "error_backoff (append_history e r c m st) = error_backoff st"
  "bridge_log (append_history e r c m st) = bridge_log st"
  "sent (append_history e r c m st) = sent st"
  "sleeps (append_history e r c m st) = sleeps st"
  by (simp_all add: append_history_def log_console_def Let_def split: option.split)

lemma log_console_fields [simp]:
  "running (log_console msg st) = running st"
  "suspended (log_console msg st) = suspended st"
  "error_backoff (log_console msg st) = error_backoff st"
  "history (log_console msg st) = history st"
  "bridge_log (log_console msg st) = bridge_log st"
  "console (log_console msg st) = console st @ [msg]"
  "sent (log_console msg st) = sent st"
  "sleeps (log_console msg st) = sleeps st"
  by (simp_all add: log_console_def)

text \<open>What \<open>_process_request\<close> does to a dict, by the outcome of \<open>send\<close>.\<close>

lemma process_request_obj:
  fixes d e b st
  defines "c \<equiv> dict_get d (ustr ''content'') (JStr [])"
  defines "m \<equiv> (if truthy (dict_get d (ustr ''marker'') JNull) then dict_get d (ustr ''marker'') JNull
                 else JStr (generate_marker (unix_time e) (pid b)))"
  defines "st2 \<equiv> append_history e (ustr ''claude'') c m
                   (log_bridge e (json_dumps b (JObj [(ustr ''marker'', m), (ustr ''question'', c),
                                            (ustr ''time'', JStr (local_now e))])) st)"
  shows "\<exists>extra. process_request b e (JObj d) st =
     (case fst (send b e c st) of
        None \<Rightarrow> (None, st2\<lparr>sent := sent st2 @ extra\<rparr>)
      | Some (Error exc) \<Rightarrow>
          (None, log_console ([226, 338, 32] @ ustr ''Failed to send to Codex: '' @ exc)
                   (append_history e (ustr ''codex'')
                      (JStr ([226, 338, 32] @ ustr ''Failed to send to Codex: '' @ exc)) m
                      (st2\<lparr>sent := sent st2 @ extra\<rparr>)))
      | Some KeyboardInterrupt \<Rightarrow> (Some KeyboardInterrupt, st2\<lparr>sent := sent st2 @ extra\<rparr>))"
proof -
  obtain extra where s: "send b e c st2 = (fst (send b e c st), st2\<lparr>sent := sent st2 @ extra\<rparr>)"
    using send_shape by blast
  have "process_request b e (JObj d) st =
     (case fst (send b e c st) of
        None \<Rightarrow> (None, st2\<lparr>sent := sent st2 @ extra\<rparr>)
      | Some (Error exc) \<Rightarrow>
          (None, log_console ([226, 338, 32] @ ustr ''Failed to send to Codex: '' @ exc)
                   (append_history e (ustr ''codex'')
                      (JStr ([226, 338, 32] @ ustr ''Failed to send to Codex: '' @ exc)) m
                      (st2\<lparr>sent := sent st2 @ extra\<rparr>)))
      | Some KeyboardInterrupt \<Rightarrow> (Some KeyboardInterrupt, st2\<lparr>sent := sent st2 @ extra\<rparr>))"
    using s unfolding process_request_def c_def m_def st2_def
    by (simp add: Let_def split: option.split exn.split)
  then show ?thesis by blast
qed

lemma history_append_history:
  "history (append_history e r c m st)
     = history st @ (case history_write e \<lparr>timestamp = utc_now e, role = r, marker = m, content = c\<rparr>
                     of None \<Rightarrow> [\<lparr>timestamp = utc_now e, role = r, marker = m, content = c\<rparr>]
                      | Some exc \<Rightarrow> [])"
  by (simp add: append_history_def split: option.split)

lemma console_append_history:
  "console (append_history e r c m st)
     = console st @ (case history_write e \<lparr>timestamp = utc_now e, role = r, marker = m, content = c\<rparr>
                     of None \<Rightarrow> []
                      | Some exc \<Rightarrow> [[226, 353, 160, 239, 184, 32] @ ustr ''Failed to write history: '' @ exc])"
  by (simp add: append_history_def split: option.split)

lemma process_request_sender_entry:
  fixes d e b st
  defines "c \<equiv> dict_get d (ustr ''content'') (JStr [])"
  defines "m \<equiv> (if truthy (dict_get d (ustr ''marker'') JNull) then dict_get d (ustr ''marker'') JNull
                 else JStr (generate_marker (unix_time e) (pid b)))"
  assumes w: "history_write e \<lparr>timestamp = utc_now e, role = ustr ''claude'', marker = m, content = c\<rparr> = None"
  shows "\<exists>rest. history (snd (process_request b e (JObj d) st))
           = history st @ \<lparr>timestamp = utc_now e, role = ustr ''claude'', marker = m, content = c\<rparr> # rest"
  using process_request_obj [of b e d st] w unfolding c_def m_def
  by (auto simp add: history_append_history split: option.split exn.split)

text \<open>
  C1, as the code has it. Dispatch of a dict payload returns normally whenever \<open>send\<close> raises no
  KeyboardInterrupt.  When \<open>send\<close> raises an exception \<open>exc\<close> (the backend's, or the
  AttributeError of a content that is no string), \<open>_process_request\<close> catches it: it returns
  normally and leaves the loop flag, the backoff and the sleeps alone; after the sender entry
  it appends a \<open>codex\<close> entry whose content is the message "Failed to send to Codex: exc" and
  whose marker is the sender entry's (each entry reaches the history unless its own write
  fails, which is then reported on the console instead), and it prints the message last.  The
  loop body around it takes the success path: it only resets the backoff and goes on to the
  next iteration.
\<close>

theorem process_request_isolates_send_failure:
  "let c = dict_get d (ustr ''content'') (JStr []);
       provided = dict_get d (ustr ''marker'') JNull;
       m = (if truthy provided then provided else JStr (generate_marker (unix_time e) (pid b)));
       msg = [226, 338, 32] @ ustr ''Failed to send to Codex: '' @ exc;
       sender = \<lparr>timestamp = utc_now e, role = ustr ''claude'', marker = m, content = c\<rparr>;
       target = \<lparr>timestamp = utc_now e, role = ustr ''codex'', marker = m, content = JStr msg\<rparr>;
       r = process_request b e (JObj d) st
   in (fst (send b e c st) \<noteq> Some KeyboardInterrupt \<longrightarrow> fst r = None)
    \<and> (fst (send b e c st) = Some (Error exc) \<longrightarrow>
          fst r = None
        \<and> running (snd r) = running st \<and> error_backoff (snd r) = error_backoff st
        \<and> sleeps (snd r) = sleeps st
        \<and> history (snd r)
            = history st
              @ (case history_write e sender of None \<Rightarrow> [sender] | Some x \<Rightarrow> [])
              @ (case history_write e target of None \<Rightarrow> [target] | Some x \<Rightarrow> [])
        \<and> console (snd r)
            = console st
              @ (case history_write e sender of None \<Rightarrow> []
                 | Some x \<Rightarrow> [[226, 353, 160, 239, 184, 32] @ ustr ''Failed to write history: '' @ x])
              @ (case history_write e target of None \<Rightarrow> []
                 | Some x \<Rightarrow> [[226, 353, 160, 239, 184, 32] @ ustr ''Failed to write history: '' @ x])
              @ [msg]
        \<and> (read_request b e = Some (Inr (Some (JObj d))) \<longrightarrow>
             loop_body b t e st
               = (snd r)\<lparr>error_backoff := max 0 (min (error_backoff_min t) (error_backoff_max t))\<rparr>))"
proof -
  have ret: "fst (process_request b e (JObj d) st) = None"
    if "fst (send b e (dict_get d (ustr ''content'') (JStr [])) st) \<noteq> Some KeyboardInterrupt"
    using process_request_obj [of b e d st] that
    by (auto split: option.split exn.split)
  have body: "loop_body b t e st
       = (snd (process_request b e (JObj d) st))
           \<lparr>error_backoff := max 0 (min (error_backoff_min t) (error_backoff_max t))\<rparr>"
    if "fst (process_request b e (JObj d) st) = None" "read_request b e = Some (Inr (Some (JObj d)))"
    using that by (cases "process_request b e (JObj d) st") (simp add: loop_body_def try_body_def)
  have eff: "running (snd (process_request b e (JObj d) st)) = running st
        \<and> error_backoff (snd (process_request b e (JObj d) st)) = error_backoff st
        \<and> sleeps (snd (process_request b e (JObj d) st)) = sleeps st"
    if "fst (send b e (dict_get d (ustr ''content'') (JStr [])) st) = Some (Error exc)"
    using process_request_obj [of b e d st] that by auto
  let ?sender = "\<lparr>timestamp = utc_now e, role = ustr ''claude'',
                  marker = (if truthy (dict_get d (ustr ''marker'') JNull)
                            then dict_get d (ustr ''marker'') JNull
                            else JStr (generate_marker (unix_time e) (pid b))),
                  content = dict_get d (ustr ''content'') (JStr [])\<rparr>"
  let ?target = "\<lparr>timestamp = utc_now e, role = ustr ''codex'',
                  marker = (if truthy (dict_get d (ustr ''marker'') JNull)
                            then dict_get d (ustr ''marker'') JNull
                            else JStr (generate_marker (unix_time e) (pid b))),
                  content = JStr ([226, 338, 32] @ ustr ''Failed to send to Codex: '' @ exc)\<rparr>"
  have hist: "history (snd (process_request b e (JObj d) st))
            = history st
              @ (case history_write e ?sender of None \<Rightarrow> [?sender] | Some x \<Rightarrow> [])
              @ (case history_write e ?target of None \<Rightarrow> [?target] | Some x \<Rightarrow> [])
        \<and> console (snd (process_request b e (JObj d) st))
            = console st
              @ (case history_write e ?sender of None \<Rightarrow> []
                 | Some x \<Rightarrow> [[226, 353, 160, 239, 184, 32] @ ustr ''Failed to write history: '' @ x])
              @ (case history_write e ?target of None \<Rightarrow> []
                 | Some x \<Rightarrow> [[226, 353, 160, 239, 184, 32] @ ustr ''Failed to write history: '' @ x])
              @ [[226, 338, 32] @ ustr ''Failed to send to Codex: '' @ exc]"
    if "fst (send b e (dict_get d (ustr ''content'') (JStr [])) st) = Some (Error exc)"
    using process_request_obj [of b e d st] that
    by (auto simp add: history_append_history console_append_history split: option.split)
  show ?thesis
    unfolding Let_def using ret body eff hist by (intro conjI impI) simp_all
qed

theorem process_request_isolates_send_failure_witness:
  "fst (send hi_bridge failing_backend_env (JStr (ustr ''hi'')) example_state)
     = Some (Error (ustr ''boom''))
   \<and> read_request hi_bridge failing_backend_env = Some (Inr (Some (JObj hi_request)))
   \<and> fst (process_request hi_bridge failing_backend_env (JObj hi_request) example_state) = None
   \<and> map role (history (snd (process_request hi_bridge failing_backend_env (JObj hi_request)
                                example_state))) = [ustr ''claude'', ustr ''codex'']
   \<and> map marker (history (snd (process_request hi_bridge failing_backend_env (JObj hi_request)
                                  example_state)))
       = [JStr (ustr ''ask-1767225600-4242''), JStr (ustr ''ask-1767225600-4242'')]
   \<and> console (snd (process_request hi_bridge failing_backend_env (JObj hi_request) example_state))
       = [[226, 338, 32] @ ustr ''Failed to send to Codex: boom'']
   \<and> running (loop_body hi_bridge example_timing failing_backend_env example_state)
   \<and> sleeps (loop_body hi_bridge example_timing failing_backend_env example_state) = []"
  using process_request_isolates_send_failure
          [where d = hi_request and e = failing_backend_env and b = hi_bridge
             and exc = "ustr ''boom''" and st = example_state and t = example_timing]
  by (simp add: Let_def send_def replace_char_def py_strip_def py_isspace_def ustr_def
        hi_bridge_def hi_request_def hi_line_def failing_backend_env_def example_env_def
        example_bridge_def example_state_def example_timing_def read_request_def dict_get_def
        generate_marker_def py_str_int_def digits_of.simps)

theorem non_dict_payload_counterexample:
  "read_request example_bridge list_env = Some (Inr (Some (JArr [])))
   \<and> process_request example_bridge list_env (JArr []) example_state
       = (Some (Error ([39] @ ustr ''list'' @ [39] @ ustr '' object has no attribute ''
                       @ [39] @ ustr ''get'' @ [39])), example_state)
   \<and> error_backoff example_state = 1 / 20
   \<and> sleeps (loop_body example_bridge example_timing list_env example_state) = [Backoff (1 / 20)]
   \<and> error_backoff (loop_body example_bridge example_timing list_env example_state) = 1 / 10"
  by (simp add: loop_body_def try_body_def read_request_def list_env_def example_env_def
        example_state_def example_timing_def example_bridge_def process_request_def
        attribute_error_def log_console_def log_bridge_def do_sleep_def Let_def ustr_def)

section \<open>Markers\<close>

text \<open>
  C4, as the code has it. For every dict payload whose marker is truthy (a non-empty string, for one),
  dispatch appends, the history file taking the write, an entry with role \<open>claude\<close> whose
  marker is the provided value and whose content is the payload's content as it came.  A
  provided marker that is falsy, the empty string for one, is not kept: the entry then
  carries a generated marker.
\<close>

theorem process_request_keeps_truthy_marker:
  assumes "truthy (dict_get d (ustr ''marker'') JNull)"
      and "history_write e \<lparr>timestamp = utc_now e, role = ustr ''claude'',
                             marker = dict_get d (ustr ''marker'') JNull,
                             content = dict_get d (ustr ''content'') (JStr [])\<rparr> = None"
  shows "\<exists>rest. history (snd (process_request b e (JObj d) st))
           = history st @ \<lparr>timestamp = utc_now e, role = ustr ''claude'',
                            marker = dict_get d (ustr ''marker'') JNull,
                            content = dict_get d (ustr ''content'') (JStr [])\<rparr> # rest"
  using process_request_sender_entry [of e d b st] assms by simp

theorem process_request_keeps_truthy_marker_witness:
  "truthy (dict_get m1_request (ustr ''marker'') JNull)
   \<and> history (snd (process_request example_bridge example_env (JObj m1_request) example_state))
       = [\<lparr>timestamp = utc_now example_env, role = ustr ''claude'', marker = JStr (ustr ''m1''),
           content = JStr (ustr ''hello'' @ [10] @ ustr ''world'')\<rparr>]
   \<and> sent (snd (process_request example_bridge example_env (JObj m1_request) example_state))
       = [ustr ''hello world'']"
  using process_request_keeps_truthy_marker
          [where d = m1_request and e = example_env and b = example_bridge and st = example_state]
  by (simp add: Let_def process_request_def send_def replace_char_def py_strip_def py_isspace_def
        ustr_def m1_request_def example_env_def log_bridge_def append_history_def
        example_bridge_def example_state_def dict_get_def)

theorem explicit_empty_marker_counterexample:
  "dict_get empty_marker_request (ustr ''marker'') JNull = JStr []
   \<and> map marker (history (snd (process_request example_bridge example_env
                                  (JObj empty_marker_request) example_state)))
       = [JStr (ustr ''ask-1767225600-4242'')]
   \<and> JStr (ustr ''ask-1767225600-4242'') \<noteq> JStr []"
  by (simp add: Let_def process_request_def send_def replace_char_def py_strip_def py_isspace_def
        ustr_def empty_marker_request_def example_env_def log_bridge_def append_history_def
        example_bridge_def example_state_def dict_get_def generate_marker_def py_str_int_def
        digits_of.simps)

lemma dict_get_without:
  "dict_get (filter (\<lambda>kv. fst kv \<noteq> k) d) k' dflt = (if k' = k then dflt else dict_get d k' dflt)"
  by (induction d) (auto simp add: dict_get_def)

text \<open>
  C10. A payload whose marker is present but falsy is dispatched exactly as the same payload
  without the marker key: the provided value is dropped and the entry written carries the
  marker generated from the clock and the process id.
\<close>

theorem falsy_marker_is_regenerated:
  assumes "\<not> truthy (dict_get d (ustr ''marker'') JNull)"
  shows "process_request b e (JObj d) st
           = process_request b e (JObj (filter (\<lambda>kv. fst kv \<noteq> ustr ''marker'') d)) st
       \<and> (history_write e \<lparr>timestamp = utc_now e, role = ustr ''claude'',
                             marker = JStr (generate_marker (unix_time e) (pid b)),
                             content = dict_get d (ustr ''content'') (JStr [])\<rparr> = None \<longrightarrow>
           (\<exists>rest. history (snd (process_request b e (JObj d) st))
              = history st @ \<lparr>timestamp = utc_now e, role = ustr ''claude'',
                               marker = JStr (generate_marker (unix_time e) (pid b)),
                               content = dict_get d (ustr ''content'') (JStr [])\<rparr> # rest))"
proof -
  have ne: "ustr ''content'' \<noteq> ustr ''marker''" by (simp add: ustr_def)
  have "process_request b e (JObj d) st
           = process_request b e (JObj (filter (\<lambda>kv. fst kv \<noteq> ustr ''marker'') d)) st"
    using assms ne by (simp add: process_request_def dict_get_without)
  moreover have "history_write e \<lparr>timestamp = utc_now e, role = ustr ''claude'',
                             marker = JStr (generate_marker (unix_time e) (pid b)),
                             content = dict_get d (ustr ''content'') (JStr [])\<rparr> = None \<longrightarrow>
           (\<exists>rest. history (snd (process_request b e (JObj d) st))
              = history st @ \<lparr>timestamp = utc_now e, role = ustr ''claude'',
                               marker = JStr (generate_marker (unix_time e) (pid b)),
                               content = dict_get d (ustr ''content'') (JStr [])\<rparr> # rest)"
    using process_request_sender_entry [of e d b st] assms by simp
  ultimately show ?thesis by blast
qed

theorem falsy_marker_is_regenerated_witness:
  "\<not> truthy (dict_get zero_marker_request (ustr ''marker'') JNull)
   \<and> filter (\<lambda>kv. fst kv \<noteq> ustr ''marker'') zero_marker_request = hi_request
   \<and> process_request example_bridge example_env (JObj zero_marker_request) example_state
       = process_request example_bridge example_env (JObj hi_request) example_state
   \<and> map marker (history (snd (process_request example_bridge example_env
                                  (JObj zero_marker_request) example_state)))
       = [JStr (ustr ''ask-1767225600-4242'')]"
  using falsy_marker_is_regenerated
          [where d = zero_marker_request and e = example_env and b = example_bridge
             and st = example_state]
  by (simp add: Let_def process_request_def send_def replace_char_def py_strip_def py_isspace_def
        ustr_def zero_marker_request_def hi_request_def example_env_def log_bridge_def
        append_history_def example_bridge_def example_state_def dict_get_def generate_marker_def
        py_str_int_def digits_of.simps)

section \<open>The loop body\<close>

lemma process_request_keeps:
  "running (snd (process_request b e p st)) = running st
   \<and> suspended (snd (process_request b e p st)) = suspended st
   \<and> error_backoff (snd (process_request b e p st)) = error_backoff st
   \<and> sleeps (snd (process_request b e p st)) = sleeps st"
proof (cases p)
  case (JObj d)
  show ?thesis
  proof (cases "fst (send b e (dict_get d (ustr ''content'') (JStr [])) st)")
    case None
    with JObj process_request_obj [of b e d st] show ?thesis by auto
  next
    case (Some x)
    with JObj process_request_obj [of b e d st] show ?thesis by (cases x) auto
  qed
qed (simp_all add: process_request_def)

lemma send_interrupt:
  "fst (send b e c st) = Some KeyboardInterrupt \<Longrightarrow>
   \<exists>command. send_text e (pane_id b) command = Some KeyboardInterrupt"
  by (cases c) (auto simp add: send_def Let_def attribute_error_def split: if_splits)

lemma process_request_interrupt:
  assumes "fst (process_request b e p st) = Some KeyboardInterrupt"
  shows "\<exists>command. send_text e (pane_id b) command = Some KeyboardInterrupt"
proof (cases p)
  case (JObj d)
  have "fst (send b e (dict_get d (ustr ''content'') (JStr [])) st) = Some KeyboardInterrupt"
  proof (cases "fst (send b e (dict_get d (ustr ''content'') (JStr [])) st)")
    case None
    with JObj assms process_request_obj [of b e d st] show ?thesis by auto
  next
    case (Some x)
    with JObj assms process_request_obj [of b e d st] show ?thesis by (cases x) auto
  qed
  then show ?thesis by (rule send_interrupt)
qed (use assms in \<open>simp_all add: process_request_def attribute_error_def\<close>)

lemma read_request_cases:
  obtains (blocks) "read_request b e = None"
        | (raises) x where "read_request b e = Some (Inl x)"
        | (absent) "read_request b e = Some (Inr None)"
        | (payload) p where "read_request b e = Some (Inr (Some p))"
proof (cases "read_request b e")
  case None
  then show ?thesis by (rule blocks)
next
  case (Some r)
  show ?thesis
  proof (cases r)
    case (Inl x)
    with Some show ?thesis by (intro raises) simp
  next
    case (Inr q)
    with Some show ?thesis by (cases q) (auto intro: absent payload)
  qed
qed


lemma read_request_raises: "read_request b e = Some (Inl x) \<longleftrightarrow> read_event e = Escapes x"
  by (simp add: read_request_def split: read_event.split option.split json.split)

lemma try_body_interrupt:
  assumes "fst (try_body b t e st) = Some KeyboardInterrupt"
  shows "read_event e = Escapes KeyboardInterrupt
         \<or> (\<exists>command. send_text e (pane_id b) command = Some KeyboardInterrupt)"
proof (cases b e rule: read_request_cases)
  case blocks
  with assms show ?thesis by (simp add: try_body_def)
next
  case (raises x)
  with assms have "x = KeyboardInterrupt" by (simp add: try_body_def)
  with raises show ?thesis by (simp add: read_request_raises)
next
  case absent
  with assms show ?thesis by (simp add: try_body_def)
next
  case (payload p)
  with assms have "fst (process_request b e p st) = Some KeyboardInterrupt"
    by (cases "process_request b e p st") (auto simp add: try_body_def split: option.splits)
  then show ?thesis using process_request_interrupt by blast
qed

lemma running_try_body: "running (snd (try_body b t e st)) = running st"
proof (cases b e rule: read_request_cases)
  case (payload p)
  then show ?thesis
    using process_request_keeps [of b e p st]
    by (cases "process_request b e p st") (auto simp add: try_body_def split: option.splits)
qed (simp_all add: try_body_def do_sleep_def)


lemma do_sleep_fields [simp]:
  "running (do_sleep s st) = running st"
  "suspended (do_sleep s st) = suspended st"
  "error_backoff (do_sleep s st) = error_backoff st"
  "history (do_sleep s st) = history st"
  "bridge_log (do_sleep s st) = bridge_log st"
  "console (do_sleep s st) = console st"
  "sent (do_sleep s st) = sent st"
  "sleeps (do_sleep s st) = sleeps st @ [s]"
  by (simp_all add: do_sleep_def)

lemma running_loop_body:
  "running (loop_body b t e st) = (running st \<and> fst (try_body b t e st) \<noteq> Some KeyboardInterrupt)"
  using running_try_body [of b t e st]
  by (cases "try_body b t e st")
     (auto simp add: loop_body_def Let_def split: option.splits exn.splits)


lemma run_loop_suspended: "suspended st \<Longrightarrow> run_loop b t (map Iteration es) st = st"
  by (induction es) simp_all

text \<open>
  C8, as the code has it. A failed write of a history entry is caught in \<open>_append_history\<close>
  and reported on the console, with nothing else changed; a failed write of a bridge-log line
  is caught in \<open>_log_bridge\<close> and dropped without any report.  Neither ends the loop: whatever
  the two files do, an iteration in which no KeyboardInterrupt is raised leaves the loop flag
  as it was.
\<close>

theorem write_failures_are_contained:
  "(history_write e \<lparr>timestamp = utc_now e, role = r, marker = m, content = c\<rparr> = Some exc \<longrightarrow>
      append_history e r c m st
        = st\<lparr>console := console st
                 @ [[226, 353, 160, 239, 184, 32] @ ustr ''Failed to write history: '' @ exc]\<rparr>)
   \<and> (\<not> log_write e (local_now e @ [32] @ msg) \<longrightarrow> log_bridge e msg st = st)
   \<and> (read_event e \<noteq> Escapes KeyboardInterrupt
        \<and> (\<forall>command. send_text e (pane_id b) command \<noteq> Some KeyboardInterrupt) \<longrightarrow>
      running (loop_body b t e st) = running st)"
proof (intro conjI impI)
  assume "history_write e \<lparr>timestamp = utc_now e, role = r, marker = m, content = c\<rparr> = Some exc"
  then show "append_history e r c m st
        = st\<lparr>console := console st
                 @ [[226, 353, 160, 239, 184, 32] @ ustr ''Failed to write history: '' @ exc]\<rparr>"
    by (simp add: append_history_def log_console_def)
next
  assume "\<not> log_write e (local_now e @ [32] @ msg)"
  then show "log_bridge e msg st = st" by (simp add: log_bridge_def)
next
  assume "read_event e \<noteq> Escapes KeyboardInterrupt
        \<and> (\<forall>command. send_text e (pane_id b) command \<noteq> Some KeyboardInterrupt)"
  then have "fst (try_body b t e st) \<noteq> Some KeyboardInterrupt"
    using try_body_interrupt [of b t e st] by blast
  then show "running (loop_body b t e st) = running st"
    by (simp add: running_loop_body)
qed

theorem write_failures_are_contained_witness:
  "history_write unwritable_env
     \<lparr>timestamp = utc_now unwritable_env, role = ustr ''claude'', marker = JStr (ustr ''m1''),
      content = JStr (ustr ''hi'')\<rparr> = Some (ustr ''disk full'')
   \<and> console (append_history unwritable_env (ustr ''claude'') (JStr (ustr ''hi''))
                (JStr (ustr ''m1'')) example_state)
       = [[226, 353, 160, 239, 184, 32] @ ustr ''Failed to write history: disk full'']
   \<and> \<not> log_write unwritable_env (local_now unwritable_env @ [32] @ ustr ''error: x'')
   \<and> read_event unwritable_env \<noteq> Escapes KeyboardInterrupt
   \<and> running (loop_body hi_bridge example_timing unwritable_env example_state)"
  using write_failures_are_contained
          [where e = unwritable_env and r = "ustr ''claude''" and m = "JStr (ustr ''m1'')"
             and c = "JStr (ustr ''hi'')" and exc = "ustr ''disk full''" and st = example_state
             and msg = "ustr ''error: x''" and b = hi_bridge and t = example_timing]
  by (simp add: unwritable_env_def example_env_def example_state_def ustr_def)

theorem bridge_log_failure_is_silent_counterexample:
  "\<not> log_write unwritable_env (local_now unwritable_env @ [32] @ ustr ''error: x'')
   \<and> log_bridge unwritable_env (ustr ''error: x'') example_state = example_state
   \<and> console (log_bridge unwritable_env (ustr ''error: x'') example_state) = []"
  by (simp add: log_bridge_def unwritable_env_def example_env_def example_state_def)

lemma absent_loop_body:
  assumes "read_event e = FifoMissing \<or> read_event e = OSError
           \<or> (\<exists>l. read_event e = Line l \<and> json_loads b l = None)"
  shows "read_request b e = Some (Inr None)"
    and "loop_body b t e st
           = (if idle_sleep t \<noteq> 0 then st\<lparr>sleeps := sleeps st @ [Idle (idle_sleep t)]\<rparr> else st)"
  using assms by (auto simp add: read_request_def loop_body_def try_body_def do_sleep_def)

lemma absent_run_loop:
  assumes "\<forall>e\<in>set es. read_event e = FifoMissing \<or> read_event e = OSError
           \<or> (\<exists>l. read_event e = Line l \<and> json_loads b l = None)"
  shows "run_loop b t (map Iteration es) st
           = (if running st \<and> \<not> suspended st \<and> idle_sleep t \<noteq> 0
              then st\<lparr>sleeps := sleeps st @ replicate (length es) (Idle (idle_sleep t))\<rparr> else st)"
  using assms
proof (induction es arbitrary: st)
  case Nil
  then show ?case by simp
next
  case (Cons e es)
  then show ?case
    by (simp add: absent_loop_body(2) run_loop_suspended replicate_append_same
          del: replicate.simps)
       (simp add: replicate_app_Cons_same)
qed

text \<open>
  C6, as the code has it. When the fifo is missing, when opening or reading it fails with an
  OSError, or when the line read is text that is not valid JSON, \<open>_read_request\<close> returns
  None without raising, and the loop body takes the idle path: it sleeps the idle interval (if
  that is not zero) and changes nothing else, so nothing is printed or logged and the backoff
  stays as it was.  Any number of such iterations in a row does the same.
\<close>

theorem absent_poll_takes_idle_path:
  "(read_event e = FifoMissing \<or> read_event e = OSError
           \<or> (\<exists>l. read_event e = Line l \<and> json_loads b l = None) \<longrightarrow>
      read_request b e = Some (Inr None)
    \<and> loop_body b t e st
        = (if idle_sleep t \<noteq> 0 then st\<lparr>sleeps := sleeps st @ [Idle (idle_sleep t)]\<rparr> else st)
    \<and> error_backoff (loop_body b t e st) = error_backoff st)
   \<and> ((\<forall>e\<in>set es. read_event e = FifoMissing \<or> read_event e = OSError
           \<or> (\<exists>l. read_event e = Line l \<and> json_loads b l = None)) \<longrightarrow>
      run_loop b t (map Iteration es) st
        = (if running st \<and> \<not> suspended st \<and> idle_sleep t \<noteq> 0
           then st\<lparr>sleeps := sleeps st @ replicate (length es) (Idle (idle_sleep t))\<rparr> else st))"
  using absent_loop_body(1) [of e b] absent_loop_body(2) [of e b t st]
    absent_run_loop [of es b t st]
  by simp

theorem absent_poll_takes_idle_path_witness:
  "read_event example_env = FifoMissing
   \<and> read_event unreadable_env = OSError
   \<and> read_event garbage_env = Line (ustr ''{not json'')
   \<and> json_loads example_bridge (ustr ''{not json'') = None
   \<and> read_request example_bridge garbage_env = Some (Inr None)
   \<and> loop_body example_bridge example_timing garbage_env example_state
       = example_state\<lparr>sleeps := [Idle 0.05]\<rparr>
   \<and> run_loop example_bridge example_timing (map Iteration [example_env, garbage_env, unreadable_env])
        example_state
       = example_state\<lparr>sleeps := [Idle 0.05, Idle 0.05, Idle 0.05]\<rparr>"
  using absent_poll_takes_idle_path
          [where e = garbage_env and b = example_bridge and t = example_timing
             and st = example_state and es = "[example_env, garbage_env, unreadable_env]"]
  by (simp add: garbage_env_def unreadable_env_def example_env_def example_bridge_def
        example_timing_def example_state_def ustr_def)

theorem undecodable_line_counterexample:
  "read_event broken_read_env = Escapes (Error (ustr ''invalid start byte''))
   \<and> read_request example_bridge broken_read_env = Some (Inl (Error (ustr ''invalid start byte'')))
   \<and> error_backoff example_state = 1 / 20
   \<and> sleeps (loop_body example_bridge example_timing broken_read_env example_state)
       = [Backoff (1 / 20)]
   \<and> error_backoff (loop_body example_bridge example_timing broken_read_env example_state) = 1 / 10
   \<and> console (loop_body example_bridge example_timing broken_read_env example_state)
       = [[226, 338, 32] @ ustr ''Failed to process message: invalid start byte'']"
  by (simp add: loop_body_def try_body_def read_request_def broken_read_env_def example_env_def
        example_state_def example_timing_def log_console_def log_bridge_def do_sleep_def
        Let_def ustr_def)

section \<open>Polls that do not return\<close>




section \<open>Backoff\<close>

lemma backoff_durations_append [simp]:
  "backoff_durations (xs @ ys) = backoff_durations xs @ backoff_durations ys"
  by (induction xs rule: backoff_durations.induct) simp_all

lemma env_float_nonneg: "0 \<le> dflt \<Longrightarrow> 0 \<le> env_float environ to_float name dflt"
  by (simp add: env_float_def split: option.split)

lemma load_timing_nonneg:
  "0 \<le> error_backoff_min (load_timing environ to_float)
   \<and> 0 \<le> error_backoff_max (load_timing environ to_float)"
  by (simp add: load_timing_def env_float_nonneg)

lemma process_request_error_unchanged:
  assumes "fst (process_request b e p st) = Some (Error exc)"
  shows "snd (process_request b e p st) = st"
proof (cases p)
  case (JObj d)
  have False
  proof (cases "fst (send b e (dict_get d (ustr ''content'') (JStr [])) st)")
    case None
    with JObj assms process_request_obj [of b e d st] show ?thesis by auto
  next
    case (Some x)
    with JObj assms process_request_obj [of b e d st] show ?thesis by (cases x) auto
  qed
  then show ?thesis ..
qed (simp_all add: process_request_def)

lemma try_body_error_unchanged:
  assumes "fst (try_body b t e st) = Some (Error exc)"
  shows "try_body b t e st = (Some (Error exc), st)"
proof (cases b e rule: read_request_cases)
  case (payload p)
  with assms have f: "fst (process_request b e p st) = Some (Error exc)"
    by (cases "process_request b e p st") (auto simp add: try_body_def split: option.splits)
  then have "process_request b e p st = (Some (Error exc), st)"
    using process_request_error_unchanged [OF f] by (cases "process_request b e p st") simp
  with payload show ?thesis by (simp add: try_body_def)
qed (use assms in \<open>simp_all add: try_body_def\<close>)

text \<open>What one iteration does when an exception escapes the \<open>try\<close> body.\<close>

lemma loop_body_error:
  assumes "fst (try_body b t e st) = Some (Error exc)"
  shows "error_backoff (loop_body b t e st)
           = (if error_backoff_max t \<noteq> 0
              then min (error_backoff_max t) (max (error_backoff_min t) (error_backoff st * 2))
              else error_backoff st)"
    and "sleeps (loop_body b t e st)
           = sleeps st @ (if error_backoff st \<noteq> 0 then [Backoff (error_backoff st)] else [])"
    and "running (loop_body b t e st) = running st"
  using try_body_error_unchanged [OF assms]
  by (simp_all add: loop_body_def Let_def)

lemma try_body_backoff:
  "error_backoff (snd (try_body b t e st))
     = (if \<exists>p. read_request b e = Some (Inr (Some p)) \<and> fst (process_request b e p st) = None
        then max 0 (min (error_backoff_min t) (error_backoff_max t)) else error_backoff st)"
proof (cases b e rule: read_request_cases)
  case (payload p)
  then show ?thesis
    using process_request_keeps [of b e p st]
    by (cases "process_request b e p st") (auto simp add: try_body_def split: option.splits)
qed (simp_all add: try_body_def)

lemma loop_body_success:
  assumes "read_request b e = Some (Inr (Some p))" "fst (process_request b e p st) = None"
  shows "error_backoff (loop_body b t e st) = max 0 (min (error_backoff_min t) (error_backoff_max t))"
    and "sleeps (loop_body b t e st) = sleeps st"
    and "running (loop_body b t e st) = running st"
  using assms process_request_keeps [of b e p st]
  by (cases "process_request b e p st"; simp add: loop_body_def try_body_def)+

lemma loop_body_backoff_cases:
  "error_backoff (loop_body b t e st) = error_backoff st
   \<or> error_backoff (loop_body b t e st) = max 0 (min (error_backoff_min t) (error_backoff_max t))
   \<or> (error_backoff_max t \<noteq> 0
       \<and> error_backoff (loop_body b t e st)
           = min (error_backoff_max t) (max (error_backoff_min t) (error_backoff st * 2)))"
proof (cases "fst (try_body b t e st)")
  case None
  then have "loop_body b t e st = snd (try_body b t e st)"
    by (cases "try_body b t e st") (simp add: loop_body_def)
  then show ?thesis using try_body_backoff [of b t e st] by auto
next
  case (Some x)
  show ?thesis
  proof (cases x)
    case (Error exc)
    with Some show ?thesis using loop_body_error(1) [of b t e st exc] by auto
  next
    case KeyboardInterrupt
    with Some have "loop_body b t e st = (snd (try_body b t e st))\<lparr>running := False\<rparr>"
      by (cases "try_body b t e st") (simp add: loop_body_def)
    then show ?thesis using try_body_backoff [of b t e st] by auto
  qed
qed

lemma loop_body_bounds:
  assumes "0 \<le> error_backoff_min t" "0 \<le> error_backoff_max t"
      and "min (error_backoff_min t) (error_backoff_max t) \<le> error_backoff st"
      and "error_backoff st \<le> error_backoff_max t"
  shows "min (error_backoff_min t) (error_backoff_max t) \<le> error_backoff (loop_body b t e st)
         \<and> error_backoff (loop_body b t e st) \<le> error_backoff_max t"
  using loop_body_backoff_cases [of b t e st] assms by (auto simp add: min_def max_def)

lemma run_loop_bounds:
  assumes "0 \<le> error_backoff_min t" "0 \<le> error_backoff_max t"
      and "min (error_backoff_min t) (error_backoff_max t) \<le> error_backoff st"
      and "error_backoff st \<le> error_backoff_max t"
  shows "min (error_backoff_min t) (error_backoff_max t) \<le> error_backoff (run_loop b t evs st)
         \<and> error_backoff (run_loop b t evs st) \<le> error_backoff_max t"
  using assms
proof (induction evs arbitrary: st)
  case Nil
  then show ?case by simp
next
  case (Cons ev evs)
  show ?case
  proof (cases ev)
    case (Signal n)
    have "error_backoff (handle_signal n st) = error_backoff st"
      by (simp add: handle_signal_def)
    with Cons Signal show ?thesis by simp
  next
    case (Iteration e)
    with Cons loop_body_bounds [of t st b e] show ?thesis by simp
  qed
qed

lemma run_start_bounds:
  assumes "0 \<le> error_backoff_min t" "0 \<le> error_backoff_max t"
  shows "error_backoff (run_start t st) = min (error_backoff_min t) (error_backoff_max t)"
  using assms by (simp add: run_start_def)

text \<open>
  C2, as the code has it. Whatever the environment variables hold and whatever happens in the
  run, after every event the backoff lies between the smaller of the two configured bounds
  and the configured maximum: \<open>min(min, max) \<le> current \<le> max\<close>.  So \<open>min \<le> current\<close>
  holds whenever the configured minimum is not above the maximum.  After a dispatch that
  returns normally the backoff is \<open>min(min, max)\<close>, which is the configured minimum in that
  case.
\<close>

theorem backoff_stays_in_bounds:
  "let t = load_timing environ to_float; st' = run_loop b t evs (run_start t st)
   in min (error_backoff_min t) (error_backoff_max t) \<le> error_backoff st'
    \<and> error_backoff st' \<le> error_backoff_max t
    \<and> (error_backoff_min t \<le> error_backoff_max t \<longrightarrow> error_backoff_min t \<le> error_backoff st')
    \<and> (\<forall>e p. read_request b e = Some (Inr (Some p)) \<and> fst (process_request b e p st') = None \<longrightarrow>
          error_backoff (loop_body b t e st') = min (error_backoff_min t) (error_backoff_max t))"
proof -
  let ?t = "load_timing environ to_float"
  let ?st' = "run_loop b ?t evs (run_start ?t st)"
  note nn = load_timing_nonneg [of environ to_float]
  have start: "error_backoff (run_start ?t st) = min (error_backoff_min ?t) (error_backoff_max ?t)"
    using nn by (simp add: run_start_bounds)
  have b: "min (error_backoff_min ?t) (error_backoff_max ?t) \<le> error_backoff ?st'
         \<and> error_backoff ?st' \<le> error_backoff_max ?t"
    using nn start by (intro run_loop_bounds) simp_all
  have r: "error_backoff (loop_body b ?t e ?st') = min (error_backoff_min ?t) (error_backoff_max ?t)"
    if "read_request b e = Some (Inr (Some p))" "fst (process_request b e p ?st') = None" for e p
    using loop_body_success(1) [OF that] nn by simp
  show ?thesis unfolding Let_def using b r by auto
qed

theorem backoff_stays_in_bounds_witness:
  "error_backoff_min (load_timing (\<lambda>name. None) example_to_float) = 1 / 20
   \<and> error_backoff_max (load_timing (\<lambda>name. None) example_to_float) = 1 / 5
   \<and> error_backoff (run_loop hi_bridge (load_timing (\<lambda>name. None) example_to_float)
                       [Iteration broken_read_env, Iteration broken_read_env, Iteration broken_read_env]
                       (run_start (load_timing (\<lambda>name. None) example_to_float) example_state))
       = 1 / 5
   \<and> read_request hi_bridge hi_env = Some (Inr (Some (JObj hi_request)))
   \<and> error_backoff (loop_body hi_bridge (load_timing (\<lambda>name. None) example_to_float) hi_env
        (run_loop hi_bridge (load_timing (\<lambda>name. None) example_to_float)
           [Iteration broken_read_env, Iteration broken_read_env, Iteration broken_read_env]
           (run_start (load_timing (\<lambda>name. None) example_to_float) example_state)))
       = 1 / 20"
proof -
  have vals: "error_backoff_min (load_timing (\<lambda>name. None) example_to_float) = 1 / 20
   \<and> error_backoff_max (load_timing (\<lambda>name. None) example_to_float) = 1 / 5
   \<and> error_backoff (run_loop hi_bridge (load_timing (\<lambda>name. None) example_to_float)
                       [Iteration broken_read_env, Iteration broken_read_env, Iteration broken_read_env]
                       (run_start (load_timing (\<lambda>name. None) example_to_float) example_state))
       = 1 / 5
   \<and> read_request hi_bridge hi_env = Some (Inr (Some (JObj hi_request)))"
    by (simp add: Let_def load_timing_def env_float_def run_start_def log_console_def
        loop_body_def try_body_def read_request_def broken_read_env_def hi_env_def
        example_env_def example_state_def log_bridge_def do_sleep_def hi_bridge_def hi_line_def
        ustr_def)
  have ok: "fst (process_request hi_bridge hi_env (JObj hi_request) s) = None" for s
    by (simp add: hi_bridge_def example_bridge_def process_request_def send_def dict_get_def
        hi_request_def hi_env_def example_env_def ustr_def replace_char_def py_strip_def
        py_isspace_def Let_def)
  from backoff_stays_in_bounds
          [where environ = "\<lambda>name. None" and to_float = example_to_float and b = hi_bridge
             and evs = "[Iteration broken_read_env, Iteration broken_read_env,
                         Iteration broken_read_env]"
             and st = example_state]
  have "error_backoff (loop_body hi_bridge (load_timing (\<lambda>name. None) example_to_float) hi_env
        (run_loop hi_bridge (load_timing (\<lambda>name. None) example_to_float)
           [Iteration broken_read_env, Iteration broken_read_env, Iteration broken_read_env]
           (run_start (load_timing (\<lambda>name. None) example_to_float) example_state)))
       = min (error_backoff_min (load_timing (\<lambda>name. None) example_to_float))
             (error_backoff_max (load_timing (\<lambda>name. None) example_to_float))"
    unfolding Let_def using vals ok by blast
  with vals show ?thesis by simp
qed

theorem backoff_below_min_counterexample:
  "error_backoff_min (load_timing swapped_environ example_to_float) = 1 / 2
   \<and> error_backoff_max (load_timing swapped_environ example_to_float) = 1 / 5
   \<and> error_backoff (snd (run example_bridge swapped_environ example_to_float [] example_state))
       = 1 / 5
   \<and> error_backoff (snd (run example_bridge swapped_environ example_to_float [] example_state))
       < error_backoff_min (load_timing swapped_environ example_to_float)"
  by (simp add: run_def Let_def load_timing_def env_float_def run_start_def log_console_def
        swapped_environ_def example_to_float_def example_state_def ustr_def)


text \<open>Iterations in a row that all end in the \<open>except Exception\<close> handler.\<close>

lemma failing_run:
  assumes nn: "0 \<le> error_backoff_min t" "0 \<le> error_backoff_max t"
      and fails: "\<forall>e\<in>set es. \<forall>s. \<exists>exc. fst (try_body b t e s) = Some (Error exc)"
      and lo: "min (error_backoff_min t) (error_backoff_max t) \<le> error_backoff st"
      and hi: "error_backoff st \<le> error_backoff_max t"
  shows "\<exists>ds. backoff_durations (sleeps (run_loop b t (map Iteration es) st))
                 = backoff_durations (sleeps st) @ ds
             \<and> successively (\<lambda>a c. a \<le> c \<and> c \<le> 2 * a) ds
             \<and> (\<forall>x\<in>set ds. error_backoff st \<le> x \<and> x \<le> error_backoff_max t)
             \<and> (ds \<noteq> [] \<longrightarrow> hd ds = error_backoff st)"
  using fails lo hi
proof (induction es arbitrary: st)
  case Nil
  then show ?case by simp
next
  case (Cons e es)
  show ?case
  proof (cases "running st \<and> \<not> suspended st")
    case False
    then have "run_loop b t (map Iteration (e # es)) st = st"
      using run_loop_suspended [of st b t "e # es"] by (cases "suspended st") simp_all
    then show ?thesis by simp
  next
    case True
    let ?st1 = "loop_body b t e st"
    from Cons.prems(1) have "\<forall>s. \<exists>exc. fst (try_body b t e s) = Some (Error exc)"
      by simp
    then obtain exc where f: "fst (try_body b t e st) = Some (Error exc)"
      by blast
    have eb1: "error_backoff ?st1
           = (if error_backoff_max t \<noteq> 0
              then min (error_backoff_max t) (max (error_backoff_min t) (error_backoff st * 2))
              else error_backoff st)"
      by (rule loop_body_error(1) [OF f])
    have sl1: "sleeps ?st1
           = sleeps st @ (if error_backoff st \<noteq> 0 then [Backoff (error_backoff st)] else [])"
      by (rule loop_body_error(2) [OF f])
    have pos: "0 \<le> error_backoff st" using nn Cons.prems(2) by (auto simp add: min_def split: if_splits)
    have grow: "error_backoff st \<le> error_backoff ?st1 \<and> error_backoff ?st1 \<le> 2 * error_backoff st"
      using eb1 nn pos Cons.prems(2,3) by (auto simp add: min_def max_def split: if_splits)
    have b1: "min (error_backoff_min t) (error_backoff_max t) \<le> error_backoff ?st1
              \<and> error_backoff ?st1 \<le> error_backoff_max t"
      using loop_body_bounds [OF nn Cons.prems(2,3)] .
    from Cons.prems(1) have rest: "\<forall>e\<in>set es. \<forall>s. \<exists>exc. fst (try_body b t e s) = Some (Error exc)"
      by simp
    from Cons.IH [OF rest] b1
    obtain ds where ds: "backoff_durations (sleeps (run_loop b t (map Iteration es) ?st1))
                           = backoff_durations (sleeps ?st1) @ ds"
        "successively (\<lambda>a c. a \<le> c \<and> c \<le> 2 * a) ds"
        "\<forall>x\<in>set ds. error_backoff ?st1 \<le> x \<and> x \<le> error_backoff_max t"
        "ds \<noteq> [] \<longrightarrow> hd ds = error_backoff ?st1"
      by blast
    show ?thesis
    proof (cases "error_backoff st = 0")
      case z: True
      then have "error_backoff ?st1 = 0"
        using grow by simp
      with z ds sl1 True show ?thesis by (intro exI [of _ ds]) simp
    next
      case nz: False
      have "backoff_durations (sleeps (run_loop b t (map Iteration (e # es)) st))
              = backoff_durations (sleeps st) @ (error_backoff st # ds)"
        using True ds(1) sl1 nz by simp
      moreover have "successively (\<lambda>a c. a \<le> c \<and> c \<le> 2 * a) (error_backoff st # ds)"
        using ds(2,4) grow by (cases ds) (auto simp add: successively_Cons)
      moreover have "\<forall>x\<in>set (error_backoff st # ds). error_backoff st \<le> x \<and> x \<le> error_backoff_max t"
        using ds(3) grow Cons.prems(3) by auto
      ultimately show ?thesis by (intro exI [of _ "error_backoff st # ds"]) simp
    qed
  qed
qed

text \<open>
  C3, as the code has it. From any state a run can reach, iterations in a row that all end in
  the \<open>except Exception\<close> handler add backoff sleeps whose durations never decrease, never
  more than double from one to the next, never exceed the configured maximum, and start at
  the current backoff.  After a dispatch that returns normally, the next such iteration
  sleeps \<open>min(min, max)\<close> (and does not sleep at all when that is zero): the configured
  minimum whenever it is not above the maximum.
\<close>

theorem consecutive_errors_backoff:
  assumes "\<forall>e\<in>set es. \<forall>s. \<exists>exc. fst (try_body b (load_timing environ to_float) e s) = Some (Error exc)"
  shows "let t = load_timing environ to_float;
             st = run_loop b t evs (run_start t st0);
             st' = run_loop b t (map Iteration es) st
         in (\<exists>ds. backoff_durations (sleeps st') = backoff_durations (sleeps st) @ ds
                 \<and> successively (\<lambda>a c. a \<le> c \<and> c \<le> 2 * a) ds
                 \<and> (\<forall>x\<in>set ds. x \<le> error_backoff_max t)
                 \<and> (ds \<noteq> [] \<longrightarrow> hd ds = error_backoff st))
          \<and> (\<forall>ok p bad exc.
                read_request b ok = Some (Inr (Some p)) \<and> fst (process_request b ok p st') = None
                \<and> fst (try_body b t bad (loop_body b t ok st')) = Some (Error exc) \<longrightarrow>
                backoff_durations (sleeps (loop_body b t bad (loop_body b t ok st')))
                  = backoff_durations (sleeps st')
                    @ (if min (error_backoff_min t) (error_backoff_max t) = 0 then []
                       else [min (error_backoff_min t) (error_backoff_max t)]))"
proof -
  let ?t = "load_timing environ to_float"
  let ?st = "run_loop b ?t evs (run_start ?t st0)"
  let ?st' = "run_loop b ?t (map Iteration es) ?st"
  note nn = load_timing_nonneg [of environ to_float]
  have start: "error_backoff (run_start ?t st0) = min (error_backoff_min ?t) (error_backoff_max ?t)"
    using nn by (simp add: run_start_bounds)
  have b: "min (error_backoff_min ?t) (error_backoff_max ?t) \<le> error_backoff ?st
         \<and> error_backoff ?st \<le> error_backoff_max ?t"
    using nn start by (intro run_loop_bounds) simp_all
  have "\<exists>ds. backoff_durations (sleeps ?st') = backoff_durations (sleeps ?st) @ ds
             \<and> successively (\<lambda>a c. a \<le> c \<and> c \<le> 2 * a) ds
             \<and> (\<forall>x\<in>set ds. error_backoff ?st \<le> x \<and> x \<le> error_backoff_max ?t)
             \<and> (ds \<noteq> [] \<longrightarrow> hd ds = error_backoff ?st)"
    using nn assms b by (intro failing_run) simp_all
  then have first: "\<exists>ds. backoff_durations (sleeps ?st') = backoff_durations (sleeps ?st) @ ds
             \<and> successively (\<lambda>a c. a \<le> c \<and> c \<le> 2 * a) ds
             \<and> (\<forall>x\<in>set ds. x \<le> error_backoff_max ?t)
             \<and> (ds \<noteq> [] \<longrightarrow> hd ds = error_backoff ?st)"
    by blast
  have second: "backoff_durations (sleeps (loop_body b ?t bad (loop_body b ?t ok ?st')))
                  = backoff_durations (sleeps ?st')
                    @ (if min (error_backoff_min ?t) (error_backoff_max ?t) = 0 then []
                       else [min (error_backoff_min ?t) (error_backoff_max ?t)])"
    if "read_request b ok = Some (Inr (Some p))" "fst (process_request b ok p ?st') = None"
       "fst (try_body b ?t bad (loop_body b ?t ok ?st')) = Some (Error exc)"
    for ok p bad exc
    using loop_body_success(1,2) [OF that(1,2), of ?t] loop_body_error(2) [OF that(3)] nn
    by simp
  show ?thesis unfolding Let_def using first second by blast
qed

theorem consecutive_errors_backoff_witness:
  "backoff_durations (sleeps (run_loop hi_bridge (load_timing (\<lambda>name. None) example_to_float)
      (map Iteration [broken_read_env, broken_read_env, broken_read_env, broken_read_env])
      (run_loop hi_bridge (load_timing (\<lambda>name. None) example_to_float) []
         (run_start (load_timing (\<lambda>name. None) example_to_float) example_state))))
     = [1 / 20, 1 / 10, 1 / 5, 1 / 5]
   \<and> fst (try_body hi_bridge (load_timing (\<lambda>name. None) example_to_float) broken_read_env
            example_state) = Some (Error (ustr ''invalid start byte''))"
proof -
  have fails: "\<forall>e\<in>set [broken_read_env, broken_read_env, broken_read_env, broken_read_env].
          \<forall>s. \<exists>exc. fst (try_body hi_bridge (load_timing (\<lambda>name. None) example_to_float) e s)
                       = Some (Error exc)"
    by (simp add: try_body_def read_request_def broken_read_env_def example_env_def)
  have vals: "backoff_durations (sleeps (run_loop hi_bridge (load_timing (\<lambda>name. None) example_to_float)
      (map Iteration [broken_read_env, broken_read_env, broken_read_env, broken_read_env])
      (run_loop hi_bridge (load_timing (\<lambda>name. None) example_to_float) []
         (run_start (load_timing (\<lambda>name. None) example_to_float) example_state))))
     = [1 / 20, 1 / 10, 1 / 5, 1 / 5]
   \<and> fst (try_body hi_bridge (load_timing (\<lambda>name. None) example_to_float) broken_read_env
            example_state) = Some (Error (ustr ''invalid start byte''))"
    by (simp add: Let_def load_timing_def env_float_def run_start_def log_console_def
        loop_body_def try_body_def read_request_def broken_read_env_def
        example_env_def example_state_def log_bridge_def do_sleep_def ustr_def)
  from consecutive_errors_backoff
          [where es = "[broken_read_env, broken_read_env, broken_read_env, broken_read_env]"
             and b = hi_bridge and environ = "\<lambda>name. None" and to_float = example_to_float
             and evs = "[]" and ?st0.0 = example_state, OF fails]
       vals
  show ?thesis by blast
qed

theorem backoff_reset_below_min_counterexample:
  "error_backoff_min (load_timing swapped_environ example_to_float) = 1 / 2
   \<and> backoff_durations (sleeps (snd (run hi_bridge swapped_environ example_to_float
        [Iteration broken_read_env, Iteration hi_env, Iteration broken_read_env] example_state)))
       = [1 / 5, 1 / 5]"
  by (simp add: run_def Let_def load_timing_def env_float_def run_start_def log_console_def
        swapped_environ_def example_to_float_def
        loop_body_def try_body_def read_request_def broken_read_env_def hi_env_def
        example_env_def example_state_def log_bridge_def do_sleep_def hi_bridge_def
        example_bridge_def process_request_def send_def append_history_def dict_get_def
        hi_request_def hi_line_def ustr_def replace_char_def py_strip_def py_isspace_def
        generate_marker_def py_str_int_def digits_of.simps)

section \<open>Generated markers\<close>

lemma digits_of_digits: "list_all is_digit (digits_of n)"
proof (induction n rule: digits_of.induct)
  case (1 n)
  show ?case
  proof (cases "n < 10")
    case True
    then show ?thesis by (simp add: digits_of.simps [of n] is_digit_def)
  next
    case False
    with 1 have "list_all is_digit (digits_of (n div 10))" by simp
    moreover have "is_digit (48 + n mod 10)"
      unfolding is_digit_def by simp
    ultimately show ?thesis using False by (simp add: digits_of.simps [of n])
  qed
qed

lemma digits_of_nonempty: "digits_of n \<noteq> []"
  by (simp add: digits_of.simps [of n])

lemma digits_of_value: "foldl (\<lambda>a c. 10 * a + (c - 48)) 0 (digits_of n) = n"
proof (induction n rule: digits_of.induct)
  case (1 n)
  show ?case
  proof (cases "n < 10")
    case True
    then show ?thesis by (simp add: digits_of.simps [of n])
  next
    case False
    with 1 have "foldl (\<lambda>a c. 10 * a + (c - 48)) 0 (digits_of (n div 10)) = n div 10" by simp
    with False show ?thesis by (simp add: digits_of.simps [of n])
  qed
qed

lemma digits_of_inj: "digits_of m = digits_of n \<Longrightarrow> m = n"
  by (metis digits_of_value)

lemma digits_of_hd: "hd (digits_of n) \<noteq> 45"
proof -
  have "is_digit (hd (digits_of n))"
    using digits_of_digits [of n] digits_of_nonempty [of n]
    by (cases "digits_of n") simp_all
  then show ?thesis by (auto simp add: is_digit_def)
qed

lemma py_str_int_inj: "py_str_int i = py_str_int j \<Longrightarrow> i = j"
proof (cases "i < 0"; cases "j < 0")
  assume "i < 0" "j < 0" "py_str_int i = py_str_int j"
  then have "nat (- i) = nat (- j)" by (simp add: py_str_int_def digits_of_inj)
  with \<open>i < 0\<close> \<open>j < 0\<close> show "i = j" by simp
next
  assume "i < 0" "\<not> j < 0" "py_str_int i = py_str_int j"
  then have "45 # digits_of (nat (- i)) = digits_of (nat j)" by (simp add: py_str_int_def)
  then have "hd (digits_of (nat j)) = 45" by (metis list.sel(1))
  then show "i = j" using digits_of_hd by blast
next
  assume "\<not> i < 0" "j < 0" "py_str_int i = py_str_int j"
  then have "digits_of (nat i) = 45 # digits_of (nat (- j))" by (simp add: py_str_int_def)
  then have "hd (digits_of (nat i)) = 45" by (metis list.sel(1))
  then show "i = j" using digits_of_hd by blast
next
  assume "\<not> i < 0" "\<not> j < 0" "py_str_int i = py_str_int j"
  then have "nat i = nat j" by (simp add: py_str_int_def digits_of_inj)
  with \<open>\<not> i < 0\<close> \<open>\<not> j < 0\<close> show "i = j" by simp
qed

lemma takeWhile_digits:
  "list_all is_digit xs \<Longrightarrow> takeWhile is_digit (xs @ 45 # ys) = xs
     \<and> dropWhile is_digit (xs @ 45 # ys) = 45 # ys"
  by (induction xs) (simp_all add: is_digit_def)

text \<open>
  C7, as the code has it. A marker generated at or after the epoch, in a process with a
  non-negative id, has the shape \<open>ask-<digits>-<digits>\<close>.  Two markers generated in the same
  process are equal exactly when they are generated in the same second of the clock: markers
  of different seconds differ, markers of one second coincide.
\<close>

theorem generated_marker_shape:
  "(0 \<le> secs \<and> 0 \<le> p \<longrightarrow> is_ask_marker (generate_marker secs p))
   \<and> (generate_marker secs p = generate_marker secs' p \<longleftrightarrow> secs = secs')"
proof (intro conjI impI)
  assume nn: "0 \<le> secs \<and> 0 \<le> p"
  have pre: "ustr ''ask-'' = [97, 115, 107, 45]" "ustr ''-'' = [45]" by (simp_all add: ustr_def)
  from nn have g: "generate_marker secs p
      = [97, 115, 107, 45] @ digits_of (nat secs) @ 45 # digits_of (nat p)"
    by (simp add: generate_marker_def py_str_int_def pre)
  show "is_ask_marker (generate_marker secs p)"
    unfolding is_ask_marker_def g pre Let_def
    using takeWhile_digits [OF digits_of_digits, of "nat secs" "digits_of (nat p)"]
    by (simp add: digits_of_nonempty digits_of_digits)
next
  show "generate_marker secs p = generate_marker secs' p \<longleftrightarrow> secs = secs'"
    by (auto simp add: generate_marker_def dest: py_str_int_inj)
qed

theorem generated_marker_shape_witness:
  "(0::int) \<le> 1767225600 \<and> (0::int) \<le> 4242
   \<and> generate_marker 1767225600 4242 = ustr ''ask-1767225600-4242''
   \<and> is_ask_marker (ustr ''ask-1767225600-4242'')
   \<and> generate_marker 1767225600 4242 \<noteq> generate_marker 1767225601 4242"
proof -
  have g: "generate_marker 1767225600 4242 = ustr ''ask-1767225600-4242''"
    by (simp add: generate_marker_def py_str_int_def digits_of.simps ustr_def)
  from generated_marker_shape [of 1767225600 4242 1767225601] g show ?thesis by simp
qed

theorem same_second_marker_counterexample:
  "map content (history (run_loop two_line_bridge example_timing [Iteration hi_env, Iteration yo_env]
                           example_state))
     = [JStr (ustr ''hi''), JStr (ustr ''yo'')]
   \<and> map marker (history (run_loop two_line_bridge example_timing [Iteration hi_env, Iteration yo_env]
                             example_state))
     = [JStr (ustr ''ask-1767225600-4242''), JStr (ustr ''ask-1767225600-4242'')]"
  by (simp add: Let_def loop_body_def try_body_def read_request_def hi_env_def yo_env_def
        example_env_def example_state_def log_bridge_def two_line_bridge_def
        example_bridge_def process_request_def send_def append_history_def dict_get_def
        hi_request_def hi_line_def yo_line_def ustr_def replace_char_def py_strip_def
        py_isspace_def generate_marker_def py_str_int_def digits_of.simps)

end
